theory Spec2Isabelle
  imports Complex_Main
begin

section \<open>Conventions\<close>

text \<open>
  An optional property (\<^verbatim>\<open>field?: T\<close>) is an \<^typ>\<open>'a option\<close>, with \<^const>\<open>None\<close> for
  \<^verbatim>\<open>undefined\<close>. Strings are character lists. A JavaScript number is the
  \<^typ>\<open>real\<close> it denotes; see the next section for its arithmetic.

  Several interfaces of the source share property names (\<^verbatim>\<open>name\<close>, \<^verbatim>\<open>path\<close>,
  \<^verbatim>\<open>thresholds\<close>); record fields are constants, so the fields of \<^verbatim>\<open>Cookie\<close> carry
  the prefix \<^verbatim>\<open>c_\<close>, those of the Playwright cookie \<^verbatim>\<open>pw_\<close>, and the clashing ones of
  \<^verbatim>\<open>Route\<close> \<^verbatim>\<open>r_\<close>.
\<close>

section \<open>JavaScript numbers\<close>

text \<open>
  A JavaScript number is an IEEE 754 binary64 value. The code compares scores and
  divides scores and thresholds by 100; the quotient of two doubles is the exact
  quotient rounded to the nearest double, ties to the even significand. The finite
  doubles are modelled as the reals they denote and the rounding is written out.
  \<^verbatim>\<open>NaN\<close>, the infinities, the sign of zero and overflow are outside the model (a
  division by 100 cannot overflow). A number the code receives is a double, that is a
  real \<open>x\<close> with \<open>roundDouble x = x\<close>; a decimal literal such as \<^verbatim>\<open>0.78\<close> denotes
  \<open>roundDouble 0.78\<close>.
\<close>

text \<open>The number of binary digits of a natural number.\<close>

fun bitLength :: "nat \<Rightarrow> nat" where
  "bitLength n = (if n = 0 then 0 else Suc (bitLength (n div 2)))"

declare bitLength.simps [simp del]

text \<open>
  For \<open>x > 0\<close>, the exponent \<open>e\<close> with \<open>pow2 e \<le> x < pow2 (e + 1)\<close>, where
  \<open>pow2 e\<close> is 2 to the power \<open>e\<close> (lemma \<open>binade_bounds\<close> below).
\<close>

definition binade :: "real \<Rightarrow> int" where
  "binade x =
     (if x \<ge> 1 then int (bitLength (nat \<lfloor>x\<rfloor>)) - 1
      else - int (bitLength (nat (\<lceil>1 / x\<rceil> - 1))))"

definition pow2 :: "int \<Rightarrow> real" where
  "pow2 e = (if e \<ge> 0 then 2 ^ nat e else 1 / 2 ^ nat (- e))"

text \<open>Rounding to the nearest integer, a tie going to the even one.\<close>

definition roundEven :: "real \<Rightarrow> int" where
  "roundEven r =
     (let f = \<lfloor>r\<rfloor> in
      if r - of_int f < 1 / 2 then f
      else if r - of_int f > 1 / 2 then f + 1
      else if even f then f else f + 1)"

text \<open>
  Rounding to binary64: the significand has 53 bits, so the spacing of the doubles around
  \<open>x\<close> is \<open>pow2 (e - 52)\<close> for the exponent \<open>e\<close> of \<open>x\<close>, and the exponent is at
  least \<open>-1022\<close> (below that the doubles are subnormal and equally spaced).
\<close>

definition roundDouble :: "real \<Rightarrow> real" where
  "roundDouble x =
     (if x = 0 then 0
      else let u = pow2 (max (binade \<bar>x\<bar>) (- 1022) - 52)
           in sgn x * of_int (roundEven (\<bar>x\<bar> / u)) * u)"

text \<open>The operator \<^verbatim>\<open>x / y\<close> on numbers, for \<open>y\<close> other than zero.\<close>

definition jsDivide :: "real \<Rightarrow> real \<Rightarrow> real" where
  "jsDivide x y = roundDouble (x / y)"

section \<open>Data model (src/types/config.ts)\<close>

text \<open>
  The four audited categories appear as the keys of \<^verbatim>\<open>LighthouseThresholds\<close>, of
  \<^verbatim>\<open>AuditResult.scores\<close> and of the engine's \<^verbatim>\<open>categories\<close> object. One record,
  polymorphic in what is stored per key, serves the three.
\<close>

record 'a by_category =
  performance :: 'a
  accessibility :: 'a
  best_practices :: 'a
  seo :: 'a

text \<open>\<^verbatim>\<open>interface LighthouseThresholds\<close>: every key is optional.\<close>

type_synonym LighthouseThresholds = "real option by_category"

text \<open>\<^verbatim>\<open>interface Route\<close>.\<close>

record Route =
  r_name :: string
  r_path :: string
  authenticated :: "bool option"
  r_thresholds :: "LighthouseThresholds option"
  displayName :: "string option"
  waitFor :: "string option"

text \<open>
  \<^verbatim>\<open>interface Cookie\<close>. The declaration makes \<^verbatim>\<open>domain\<close> a string, but the file is
  parsed JSON and the code guards every read with \<^verbatim>\<open>cookie.domain || ''\<close>, so the field
  may be absent. \<^verbatim>\<open>sameSite\<close> is kept as the raw string.
\<close>

record Cookie =
  c_domain :: "string option"
  c_name :: string
  c_value :: string
  c_path :: "string option"
  c_secure :: "bool option"
  c_httpOnly :: "bool option"
  c_sameSite :: "string option"
  c_expirationDate :: "real option"
  c_session :: "bool option"
  c_storeId :: "string option"

text \<open>\<^verbatim>\<open>interface AuditResult\<close>.\<close>

record AuditResult =
  routeName :: string
  url :: string
  scores :: "real by_category"
  thresholds :: LighthouseThresholds
  passed :: bool

text \<open>The keys, for statements that range over them, and property access by key.\<close>

datatype category = Performance | Accessibility | BestPractices | Seo

fun at_key :: "'a by_category \<Rightarrow> category \<Rightarrow> 'a" where
  "at_key r Performance = performance r"
| "at_key r Accessibility = accessibility r"
| "at_key r BestPractices = best_practices r"
| "at_key r Seo = seo r"

text \<open>The nullish coalescing operator \<^verbatim>\<open>a ?? b\<close>.\<close>

fun nullish :: "'a option \<Rightarrow> 'a \<Rightarrow> 'a" where
  "nullish (Some v) d = v"
| "nullish None d = d"

text \<open>
  \<^verbatim>\<open>getRouteThresholds(globalThresholds = {}, routeThresholds?)\<close>: the default
  parameter replaces an undefined first argument by the empty object, and
  \<^verbatim>\<open>routeThresholds?.k\<close> is undefined when the second argument is.
\<close>

definition emptyThresholds :: LighthouseThresholds where
  "emptyThresholds =
     \<lparr>performance = None, accessibility = None, best_practices = None, seo = None\<rparr>"

definition getRouteThresholds ::
  "LighthouseThresholds option \<Rightarrow> LighthouseThresholds option \<Rightarrow> LighthouseThresholds" where
  "getRouteThresholds globalThresholds routeThresholds =
     (let g = nullish globalThresholds emptyThresholds;
          r = nullish routeThresholds emptyThresholds
      in \<lparr>performance = Some (nullish (performance r) (nullish (performance g) 25)),
          accessibility = Some (nullish (accessibility r) (nullish (accessibility g) 50)),
          best_practices = Some (nullish (best_practices r) (nullish (best_practices g) 50)),
          seo = Some (nullish (seo r) (nullish (seo g) 50))\<rparr>)"

text \<open>
  \<^verbatim>\<open>normalizeSameSite\<close>. \<^verbatim>\<open>!sameSite\<close> holds for undefined and for the empty string.
  \<^verbatim>\<open>toLowerCase\<close> is modelled on the ASCII letters.
\<close>

definition lowerChar :: "char \<Rightarrow> char" where
  "lowerChar c =
     (case map_of (zip ''ABCDEFGHIJKLMNOPQRSTUVWXYZ'' ''abcdefghijklmnopqrstuvwxyz'') c of
        Some l \<Rightarrow> l
      | None \<Rightarrow> c)"

definition toLowerCase :: "string \<Rightarrow> string" where
  "toLowerCase s = map lowerChar s"

definition normalizeSameSite :: "string option \<Rightarrow> string" where
  "normalizeSameSite sameSite =
     (case sameSite of
        None \<Rightarrow> ''Lax''
      | Some s \<Rightarrow>
          if s = [] then ''Lax''
          else let lower = toLowerCase s in
            if lower = ''strict'' then ''Strict''
            else if lower = ''lax'' then ''Lax''
            else if lower = ''none'' \<or> lower = ''no_restriction'' then ''None''
            else ''Lax'')"

section \<open>CookieManager (src/utils/cookie-manager.ts)\<close>

text \<open>
  The manager's only state is its private \<^verbatim>\<open>cookies\<close> array. What
  \<^verbatim>\<open>loadFromFile\<close> finds at the path is an input of the model: no file, a file that
  is not JSON, JSON without a \<^verbatim>\<open>Cookies\<close> array, or the array.
\<close>

type_synonym CookieManager = "Cookie list"

datatype auth_file = FileMissing | FileNotJson | FileWithoutCookies | FileCookies "Cookie list"

datatype load_error = AuthFileNotFound | JsonParseFailed | CookiesNotArray

text \<open>
  \<^verbatim>\<open>CookieManager.load\<close>: each throw of \<^verbatim>\<open>loadFromFile\<close> is caught and rethrown
  as \<^verbatim>\<open>Failed to load cookies from <path>: <cause>\<close>; the result carries path and cause.
\<close>

definition load :: "auth_file \<Rightarrow> string \<Rightarrow> (string \<times> load_error) + CookieManager" where
  "load file authFilePath =
     (case file of
        FileMissing \<Rightarrow> Inl (authFilePath, AuthFileNotFound)
      | FileNotJson \<Rightarrow> Inl (authFilePath, JsonParseFailed)
      | FileWithoutCookies \<Rightarrow> Inl (authFilePath, CookiesNotArray)
      | FileCookies cs \<Rightarrow> Inr cs)"

text \<open>
  \<^verbatim>\<open>getNormalized\<close> maps every cookie to
  \<^verbatim>\<open>{...cookie, sameSite: normalizeSameSite(cookie.sameSite)}\<close>.
\<close>

definition normalizeCookie :: "Cookie \<Rightarrow> Cookie" where
  "normalizeCookie cookie = cookie\<lparr>c_sameSite := Some (normalizeSameSite (c_sameSite cookie))\<rparr>"

definition getNormalized :: "CookieManager \<Rightarrow> Cookie list" where
  "getNormalized cookies = map normalizeCookie cookies"

text \<open>
  \<^verbatim>\<open>String.prototype.endsWith\<close>: the search string is compared with the last
  \<^verbatim>\<open>search.length\<close> characters; a longer search string never matches.
\<close>

definition endsWith :: "string \<Rightarrow> string \<Rightarrow> bool" where
  "endsWith s search =
     (length search \<le> length s \<and> drop (length s - length search) s = search)"

text \<open>\<^verbatim>\<open>a || b\<close> on an optional string: the empty string is falsy too.\<close>

fun orString :: "string option \<Rightarrow> string \<Rightarrow> string" where
  "orString None d = d"
| "orString (Some s) d = (if s = [] then d else s)"

text \<open>\<^verbatim>\<open>cookie.domain || ''\<close>.\<close>

definition cookieDomain :: "Cookie \<Rightarrow> string" where
  "cookieDomain cookie = orString (c_domain cookie) []"

definition domainMatches :: "string \<Rightarrow> Cookie \<Rightarrow> bool" where
  "domainMatches domain cookie =
     (cookieDomain cookie = domain \<or> cookieDomain cookie = ''.'' @ domain
      \<or> endsWith domain (cookieDomain cookie))"

definition getByDomain :: "CookieManager \<Rightarrow> string \<Rightarrow> Cookie list" where
  "getByDomain cookies domain = filter (domainMatches domain) (getNormalized cookies)"

definition asPlaywrightCookies :: "CookieManager \<Rightarrow> Cookie list" where
  "asPlaywrightCookies cookies = getNormalized cookies"

definition isEmpty :: "CookieManager \<Rightarrow> bool" where
  "isEmpty cookies = (length cookies = 0)"

section \<open>LighthouseRunner (src/utils/lighthouse-runner.ts)\<close>

text \<open>\<^verbatim>\<open>interface LighthouseRunnerOptions\<close>.\<close>

record LighthouseRunnerOptions =
  baseUrl :: string
  route :: Route
  globalThresholds :: "LighthouseThresholds option"
  authFile :: "string option"
  reportDir :: "string option"
  viewportWidth :: "real option"
  viewportHeight :: "real option"
  verbose :: "bool option"

subsection \<open>The engine's report\<close>

text \<open>
  \<^verbatim>\<open>playAudit\<close> resolves to an object that either has an \<^verbatim>\<open>lhr\<close> property holding
  the report or is the report; the report has an optional \<^verbatim>\<open>categories\<close> object, whose
  entries have an optional numeric \<^verbatim>\<open>score\<close>. A score is a number or undefined here;
  \<^verbatim>\<open>null\<close> and \<^verbatim>\<open>NaN\<close> scores are outside the model.
\<close>

record category_result =
  score :: "real option"

record lhr_report =
  categories :: "category_result option by_category option"

record audit_report =
  lhr :: "lhr_report option"
  own_categories :: "category_result option by_category option"

subsection \<open>Errors\<close>

text \<open>
  Every error of the source is a plain \<^verbatim>\<open>Error\<close> whose message interpolates some
  values. One constructor stands for each \<^verbatim>\<open>throw\<close> (or for the rejection of an
  awaited call), and its arguments are the interpolated values. A \<^verbatim>\<open>catch\<close> that
  rethrows with the caught error in its message is a constructor around the cause.
\<close>

datatype nav_cause =
    NoResponse string            \<comment> \<open>\<^verbatim>\<open>Navigation to <url> failed or was cancelled\<close>\<close>
  | HttpStatus nat string        \<comment> \<open>\<^verbatim>\<open>Navigation failed with HTTP <status>. ... URL: <url>\<close>\<close>
  | GotoRejected                 \<comment> \<open>\<^verbatim>\<open>page.goto\<close> itself rejected\<close>

datatype audit_cause =
    EmptyReport                  \<comment> \<open>\<^verbatim>\<open>playAudit returned empty report\<close>\<close>
  | PlayAuditRejected

datatype error =
    InvalidUrl string                          \<comment> \<open>\<^verbatim>\<open>Invalid URL constructed: <url>\<close>\<close>
  | LaunchRejected
  | AuthFileNotConfigured string               \<comment> \<open>\<^verbatim>\<open>Route "<name>" requires authentication but no authFile is configured\<close>\<close>
  | CookieLoadFailed string string load_error  \<comment> \<open>\<^verbatim>\<open>Failed to load authentication cookies for "<name>": <cause>\<close>\<close>
  | NoCookies string                           \<comment> \<open>\<^verbatim>\<open>Auth file at <authFile> has no cookies\<close>\<close>
  | AddCookiesRejected
  | NewPageRejected
  | NavigationFailed string nav_cause          \<comment> \<open>\<^verbatim>\<open>Failed to navigate to <url>: <cause>\<close>\<close>
  | SelectorNotFound string string             \<comment> \<open>\<^verbatim>\<open>Selector "<waitFor>" not found on page after 10 seconds. ... URL: <url>\<close>\<close>
  | AuditFailed string audit_cause             \<comment> \<open>\<^verbatim>\<open>Lighthouse audit failed for route "<name>": <cause>\<close>\<close>
  | CategoriesMissing string                   \<comment> \<open>\<^verbatim>\<open>Failed to extract Lighthouse categories from report for route "<name>"\<close>\<close>
  | ScoresMissing string "string list"         \<comment> \<open>\<^verbatim>\<open>Failed to extract audit scores for route "<name>": Missing scores for: <keys>\<close>\<close>
  | CloseRejected
  | RunFailed string error                     \<comment> \<open>\<^verbatim>\<open>Lighthouse audit failed for <name>: <cause>\<close>, the outer catch\<close>

subsection \<open>The browser and the engine as an environment\<close>

text \<open>
  The runner drives Playwright and the audit engine. What they answer during one run is
  an input of the model; what the runner asks of them is recorded, in order, as a trace
  of calls. A call is recorded when it is made, whether or not it then succeeds.
\<close>

record PlaywrightCookie =
  pw_name :: string
  pw_value :: string
  pw_domain :: string
  pw_path :: string
  pw_secure :: "bool option"
  pw_httpOnly :: "bool option"
  pw_sameSite :: "string option"
  pw_expires :: "real option"

datatype goto_result = GotoRejects | GotoNull | GotoResponse nat

datatype play_audit_result = PlayAuditRejects | PlayAuditEmpty | PlayAuditReport audit_report

record env =
  urlParses :: bool                    \<comment> \<open>\<^verbatim>\<open>new URL(url)\<close> does not throw\<close>
  launchResolves :: bool               \<comment> \<open>the user data directory is made and \<^verbatim>\<open>launchPersistentContext\<close> resolves\<close>
  authFileContent :: auth_file         \<comment> \<open>what is found at \<^verbatim>\<open>authFile\<close>\<close>
  addCookiesResolves :: bool
  newPageResolves :: bool
  gotoResult :: goto_result            \<comment> \<open>\<^verbatim>\<open>page.goto(url)\<close>: rejection, null, or a response with its status\<close>
  selectorAppears :: bool              \<comment> \<open>\<^verbatim>\<open>page.waitForSelector\<close> resolves within its 10 seconds\<close>
  playAuditResult :: play_audit_result
  closeResolves :: bool                \<comment> \<open>\<^verbatim>\<open>context.close()\<close> resolves\<close>

datatype event =
    LaunchPersistentContext real real  \<comment> \<open>viewport width and height\<close>
  | AddCookies "PlaywrightCookie list"
  | NewPage
  | Goto string
  | WaitForSelector string
  | PlayAudit string                   \<comment> \<open>report directory\<close>
  | Close

text \<open>
  A step of the flow yields an error or a value, and the calls it made. \<open>andThen\<close>
  sequences two steps as statements of one \<^verbatim>\<open>try\<close> block: an error ends the block.
\<close>

type_synonym 'a step = "(error + 'a) \<times> event list"

definition andThen :: "'a step \<Rightarrow> ('a \<Rightarrow> 'b step) \<Rightarrow> 'b step" where
  "andThen m f =
     (case m of
        (Inl e, t) \<Rightarrow> (Inl e, t)
      | (Inr x, t) \<Rightarrow> (case f x of (r, t') \<Rightarrow> (r, t @ t')))"

text \<open>An awaited call with nothing to return.\<close>

definition call :: "event \<Rightarrow> bool \<Rightarrow> error \<Rightarrow> unit step" where
  "call ev resolves err = (if resolves then Inr () else Inl err, [ev])"

text \<open>JavaScript truthiness of an optional string and of an optional boolean, and \<^verbatim>\<open>a || b\<close> on numbers.\<close>

fun truthyString :: "string option \<Rightarrow> bool" where
  "truthyString None = False"
| "truthyString (Some s) = (s \<noteq> [])"

fun truthyBool :: "bool option \<Rightarrow> bool" where
  "truthyBool None = False"
| "truthyBool (Some b) = b"

fun orNumber :: "real option \<Rightarrow> real \<Rightarrow> real" where
  "orNumber None d = d"
| "orNumber (Some v) d = (if v = 0 then d else v)"

subsection \<open>Session setup: authentication cookies (lines 76--121)\<close>

definition toPlaywrightCookie :: "Cookie \<Rightarrow> PlaywrightCookie" where
  "toPlaywrightCookie cookie =
     \<lparr>pw_name = c_name cookie,
      pw_value = c_value cookie,
      pw_domain = orString (c_domain cookie) [],
      pw_path = orString (c_path cookie) ''/'',
      pw_secure = c_secure cookie,
      pw_httpOnly = c_httpOnly cookie,
      pw_sameSite = c_sameSite cookie,
      pw_expires = c_expirationDate cookie\<rparr>"

definition addAuthCookies :: "env \<Rightarrow> LighthouseRunnerOptions \<Rightarrow> unit step" where
  "addAuthCookies e opts =
     (if truthyBool (authenticated (route opts)) then
        (if \<not> truthyString (authFile opts) then
           (Inl (AuthFileNotConfigured (r_name (route opts))), [])
         else
           (case load (authFileContent e) (the (authFile opts)) of
              Inl (p, cause) \<Rightarrow> (Inl (CookieLoadFailed (r_name (route opts)) p cause), [])
            | Inr cookieManager \<Rightarrow>
                if isEmpty cookieManager then (Inl (NoCookies (the (authFile opts))), [])
                else
                  call (AddCookies (map toPlaywrightCookie (asPlaywrightCookies cookieManager)))
                    (addCookiesResolves e) AddCookiesRejected))
      else (Inr (), []))"

subsection \<open>Navigation and readiness wait (lines 123--168)\<close>

definition navigate :: "env \<Rightarrow> string \<Rightarrow> unit step" where
  "navigate e u =
     (case gotoResult e of
        GotoRejects \<Rightarrow> (Inl (NavigationFailed u GotoRejected), [Goto u])
      | GotoNull \<Rightarrow> (Inl (NavigationFailed u (NoResponse u)), [Goto u])
      | GotoResponse status \<Rightarrow>
          if status \<ge> 400 then (Inl (NavigationFailed u (HttpStatus status u)), [Goto u])
          else (Inr (), [Goto u]))"

definition waitForSelector :: "env \<Rightarrow> Route \<Rightarrow> string \<Rightarrow> unit step" where
  "waitForSelector e r u =
     (if truthyString (waitFor r) then
        call (WaitForSelector (the (waitFor r))) (selectorAppears e)
          (SelectorNotFound (the (waitFor r)) u)
      else (Inr (), []))"

subsection \<open>Engine run and score extraction (lines 170--276)\<close>

definition runAudit :: "env \<Rightarrow> LighthouseRunnerOptions \<Rightarrow> audit_report step" where
  "runAudit e opts =
     (let ev = PlayAudit (orString (reportDir opts) ''./lighthouse-reports'') in
      case playAuditResult e of
        PlayAuditRejects \<Rightarrow> (Inl (AuditFailed (r_name (route opts)) PlayAuditRejected), [ev])
      | PlayAuditEmpty \<Rightarrow> (Inl (AuditFailed (r_name (route opts)) EmptyReport), [ev])
      | PlayAuditReport report \<Rightarrow> (Inr report, [ev]))"

text \<open>\<^verbatim>\<open>lhr = lighthouseReport.lhr || lighthouseReport; categories = lhr.categories\<close>.\<close>

definition reportCategories :: "audit_report \<Rightarrow> category_result option by_category option" where
  "reportCategories report =
     (case lhr report of Some l \<Rightarrow> categories l | None \<Rightarrow> own_categories report)"

text \<open>\<^verbatim>\<open>categories.k?.score\<close>.\<close>

fun optScore :: "category_result option \<Rightarrow> real option" where
  "optScore None = None"
| "optScore (Some c) = score c"

definition rawScores :: "category_result option by_category \<Rightarrow> real option by_category" where
  "rawScores cats =
     \<lparr>performance = optScore (performance cats),
      accessibility = optScore (accessibility cats),
      best_practices = optScore (best_practices cats),
      seo = optScore (seo cats)\<rparr>"

text \<open>The keys of \<^verbatim>\<open>Object.entries(scores)\<close> whose value is undefined, in insertion order.\<close>

definition missingScores :: "real option by_category \<Rightarrow> string list" where
  "missingScores raw =
     map fst (filter (\<lambda>(key, v). v = None)
       [(''performance'', performance raw), (''accessibility'', accessibility raw),
        (''best-practices'', best_practices raw), (''seo'', seo raw)])"

text \<open>
  Lines 234--260: the scores as the engine reported them, once all four are there.
\<close>

definition reportedScores :: "string \<Rightarrow> audit_report \<Rightarrow> error + real by_category" where
  "reportedScores name report =
     (case reportCategories report of
        None \<Rightarrow> Inl (CategoriesMissing name)
      | Some cats \<Rightarrow>
          let raw = rawScores cats in
          if length (missingScores raw) > 0 then Inl (ScoresMissing name (missingScores raw))
          else Inr \<lparr>performance = the (performance raw),
                    accessibility = the (accessibility raw),
                    best_practices = the (best_practices raw),
                    seo = the (seo raw)\<rparr>)"

text \<open>
  Lines 262--271: \<^verbatim>\<open>if (scores.performance > 1)\<close> every score is divided by 100,
  otherwise the scores are left as they are.
\<close>

definition normalizeScores :: "real by_category \<Rightarrow> real by_category" where
  "normalizeScores s =
     (if performance s > 1 then
        \<lparr>performance = jsDivide (performance s) 100,
         accessibility = jsDivide (accessibility s) 100,
         best_practices = jsDivide (best_practices s) 100,
         seo = jsDivide (seo s) 100\<rparr>
      else s)"

definition extractScores :: "string \<Rightarrow> audit_report \<Rightarrow> error + real by_category" where
  "extractScores name report =
     (case reportedScores name report of
        Inl err \<Rightarrow> Inl err
      | Inr s \<Rightarrow> Inr (normalizeScores s))"

subsection \<open>Threshold check (lines 278--283)\<close>

definition checkThresholds :: "real by_category \<Rightarrow> LighthouseThresholds \<Rightarrow> bool" where
  "checkThresholds s t =
     (performance s \<ge> jsDivide (nullish (performance t) 0) 100 \<and>
      accessibility s \<ge> jsDivide (nullish (accessibility t) 0) 100 \<and>
      best_practices s \<ge> jsDivide (nullish (best_practices t) 0) 100 \<and>
      seo s \<ge> jsDivide (nullish (seo t) 0) 100)"

subsection \<open>The flow (\<^verbatim>\<open>LighthouseRunner.run\<close>)\<close>

text \<open>The body of the inner \<^verbatim>\<open>try\<close>, up to the construction of the result.\<close>

definition session :: "env \<Rightarrow> LighthouseRunnerOptions \<Rightarrow> string \<Rightarrow> AuditResult step" where
  "session e opts u =
     andThen (addAuthCookies e opts) (\<lambda>_.
     andThen (call NewPage (newPageResolves e) NewPageRejected) (\<lambda>_.
     andThen (navigate e u) (\<lambda>_.
     andThen (waitForSelector e (route opts) u) (\<lambda>_.
       let ts = getRouteThresholds (globalThresholds opts) (r_thresholds (route opts)) in
       andThen (runAudit e opts) (\<lambda>report.
       andThen (extractScores (r_name (route opts)) report, []) (\<lambda>sc.
         (Inr \<lparr>routeName = r_name (route opts), url = u, scores = sc, thresholds = ts,
               passed = checkThresholds sc ts\<rparr>, [])))))))"

text \<open>
  \<^verbatim>\<open>run\<close>. The port is obtained first and only passed on; it is not modelled.
  The URL check throws outside the outer \<^verbatim>\<open>try\<close>; everything after it
  is rethrown by the outer \<^verbatim>\<open>catch\<close>. Once the context is launched, the inner
  \<^verbatim>\<open>try\<close> closes it after building the result, and the inner \<^verbatim>\<open>catch\<close> closes it
  and rethrows. The first \<^verbatim>\<open>context.close()\<close> stands inside the inner \<^verbatim>\<open>try\<close>, so
  when it rejects the \<^verbatim>\<open>catch\<close> calls it again.
\<close>

definition run :: "env \<Rightarrow> LighthouseRunnerOptions \<Rightarrow> AuditResult step" where
  "run e opts =
     (let name = r_name (route opts);
          u = baseUrl opts @ r_path (route opts);
          launch = LaunchPersistentContext (orNumber (viewportWidth opts) 1280)
                     (orNumber (viewportHeight opts) 720)
      in
      if \<not> urlParses e then (Inl (InvalidUrl u), [])
      else if \<not> launchResolves e then (Inl (RunFailed name LaunchRejected), [launch])
      else
        (case session e opts u of
           (Inr result, t) \<Rightarrow>
             if closeResolves e then (Inr result, launch # t @ [Close])
             else (Inl (RunFailed name CloseRejected), launch # t @ [Close, Close])
         | (Inl err, t) \<Rightarrow>
             if closeResolves e then (Inl (RunFailed name err), launch # t @ [Close])
             else (Inl (RunFailed name CloseRejected), launch # t @ [Close])))"

subsection \<open>Observations on a run\<close>

text \<open>The cookies handed to \<^verbatim>\<open>context.addCookies\<close> during a run, in order.\<close>

fun injected :: "event list \<Rightarrow> PlaywrightCookie list" where
  "injected [] = []"
| "injected (AddCookies cs # evs) = cs @ injected evs"
| "injected (_ # evs) = injected evs"

text \<open>Whether a navigation was attempted, and how often the context was closed.\<close>

fun isGoto :: "event \<Rightarrow> bool" where
  "isGoto (Goto _) = True"
| "isGoto _ = False"

definition navigationAttempted :: "event list \<Rightarrow> bool" where
  "navigationAttempted evs = (filter isGoto evs \<noteq> [])"

definition closeCount :: "event list \<Rightarrow> nat" where
  "closeCount evs = count_list evs Close"

text \<open>
  The flow holds a browser context once the URL has parsed and the launch has resolved.
  It gets as far as \<^verbatim>\<open>page.goto\<close> when, in addition, the cookie step has not thrown
  and the page was created.
\<close>

definition acquiresContext :: "env \<Rightarrow> bool" where
  "acquiresContext e = (urlParses e \<and> launchResolves e)"

definition reachesNavigation :: "env \<Rightarrow> LighthouseRunnerOptions \<Rightarrow> bool" where
  "reachesNavigation e opts =
     (acquiresContext e \<and> fst (addAuthCookies e opts) = Inr () \<and> newPageResolves e)"

text \<open>A score on the 0--1 scale, and one on the 0--100 scale.\<close>

definition unitScale :: "real by_category \<Rightarrow> bool" where
  "unitScale s =
     (0 \<le> performance s \<and> performance s \<le> 1 \<and> 0 \<le> accessibility s \<and> accessibility s \<le> 1 \<and>
      0 \<le> best_practices s \<and> best_practices s \<le> 1 \<and> 0 \<le> seo s \<and> seo s \<le> 1)"

definition percentScale :: "real by_category \<Rightarrow> bool" where
  "percentScale s =
     (0 \<le> performance s \<and> performance s \<le> 100 \<and> 0 \<le> accessibility s \<and> accessibility s \<le> 100 \<and>
      0 \<le> best_practices s \<and> best_practices s \<le> 100 \<and> 0 \<le> seo s \<and> seo s \<le> 100)"

section \<open>Concrete runs\<close>

text \<open>
  Inputs on which the theorems below are exercised: the scenarios of the specification
  and a few more.
\<close>

definition byCategory :: "'a \<Rightarrow> 'a \<Rightarrow> 'a \<Rightarrow> 'a \<Rightarrow> 'a by_category" where
  "byCategory p a b s = \<lparr>performance = p, accessibility = a, best_practices = b, seo = s\<rparr>"

definition reportWith :: "real \<Rightarrow> real \<Rightarrow> real \<Rightarrow> real \<Rightarrow> audit_report" where
  "reportWith p a b s =
     \<lparr>lhr = Some \<lparr>categories = Some (byCategory (Some \<lparr>score = Some p\<rparr>) (Some \<lparr>score = Some a\<rparr>)
                                        (Some \<lparr>score = Some b\<rparr>) (Some \<lparr>score = Some s\<rparr>))\<rparr>,
      own_categories = None\<rparr>"

text \<open>An environment in which every call resolves.\<close>

definition envWith :: "auth_file \<Rightarrow> goto_result \<Rightarrow> play_audit_result \<Rightarrow> env" where
  "envWith file nav audit =
     \<lparr>urlParses = True, launchResolves = True, authFileContent = file,
      addCookiesResolves = True, newPageResolves = True, gotoResult = nav,
      selectorAppears = True, playAuditResult = audit, closeResolves = True\<rparr>"

definition homeRoute :: Route where
  "homeRoute = \<lparr>r_name = ''home'', r_path = ''/'', authenticated = Some False,
                r_thresholds = None, displayName = None, waitFor = None\<rparr>"

definition dashboardRoute :: Route where
  "dashboardRoute = \<lparr>r_name = ''dashboard'', r_path = ''/dashboard'', authenticated = Some True,
                     r_thresholds = None, displayName = None, waitFor = None\<rparr>"

definition optionsFor :: "Route \<Rightarrow> string option \<Rightarrow> LighthouseRunnerOptions" where
  "optionsFor r file =
     \<lparr>baseUrl = ''https://example.com'', route = r,
      globalThresholds = Some (byCategory (Some 50) (Some 80) (Some 80) (Some 80)),
      authFile = file, reportDir = None, viewportWidth = None, viewportHeight = None,
      verbose = None\<rparr>"

definition cookieFor :: "string option \<Rightarrow> Cookie" where
  "cookieFor d =
     \<lparr>c_domain = d, c_name = ''sessionToken'', c_value = ''abc123'', c_path = Some ''/'',
      c_secure = Some True, c_httpOnly = Some True, c_sameSite = None,
      c_expirationDate = None, c_session = None, c_storeId = None\<rparr>"

section \<open>Basic facts\<close>

lemmas flow_defs =
  run_def session_def andThen_def call_def addAuthCookies_def navigate_def waitForSelector_def
  runAudit_def extractScores_def reportedScores_def reportCategories_def rawScores_def
  missingScores_def normalizeScores_def checkThresholds_def getRouteThresholds_def
  emptyThresholds_def load_def isEmpty_def asPlaywrightCookies_def getNormalized_def
  normalizeCookie_def normalizeSameSite_def toPlaywrightCookie_def

lemmas example_defs =
  envWith_def optionsFor_def homeRoute_def dashboardRoute_def reportWith_def byCategory_def
  cookieFor_def

lemmas double_defs =
  jsDivide_def roundDouble_def roundEven_def pow2_def binade_def bitLength.simps Let_def

subsection \<open>Rounding to a double\<close>

lemma bitLength_bounds: "n > 0 \<Longrightarrow> 2 ^ (bitLength n - 1) \<le> n \<and> n < 2 ^ bitLength n"
proof (induction n rule: bitLength.induct)
  case (1 n)
  show ?case
  proof (cases "n div 2 = 0")
    case True
    with "1.prems" have "n = 1" by (simp add: div_eq_0_iff)
    then show ?thesis by (simp add: bitLength.simps)
  next
    case False
    with "1.IH" "1.prems" have ih: "2 ^ (bitLength (n div 2) - 1) \<le> n div 2"
        "n div 2 < 2 ^ bitLength (n div 2)"
      by simp_all
    have pos: "bitLength (n div 2) > 0"
      using False by (simp add: bitLength.simps [of "n div 2"])
    have b: "bitLength n = Suc (bitLength (n div 2))"
      using "1.prems" by (simp add: bitLength.simps [of n])
    have "2 ^ (bitLength n - 1) = 2 * 2 ^ (bitLength (n div 2) - 1)"
      using pos b by (cases "bitLength (n div 2)") simp_all
    also have "\<dots> \<le> 2 * (n div 2)" using ih(1) by simp
    also have "\<dots> \<le> n" by simp
    finally have lo: "2 ^ (bitLength n - 1) \<le> n" .
    have "n < 2 * (n div 2) + 2" by presburger
    also have "\<dots> \<le> 2 * 2 ^ bitLength (n div 2)" using ih(2) by simp
    finally have "n < 2 ^ bitLength n" using b by simp
    with lo show ?thesis ..
  qed
qed

lemma pow2_nonneg: "e \<ge> 0 \<Longrightarrow> pow2 e = 2 ^ nat e"
  by (simp add: pow2_def)

lemma pow2_neg: "e \<le> 0 \<Longrightarrow> pow2 e = 1 / 2 ^ nat (- e)"
  by (simp add: pow2_def)

lemma pow2_pos: "pow2 e > 0"
  by (simp add: pow2_def)

lemma real_of_nat_pow2_le: "2 ^ k \<le> n \<Longrightarrow> (2::real) ^ k \<le> real n"
proof -
  assume "2 ^ k \<le> n"
  then have "real (2 ^ k) \<le> real n" by (rule of_nat_mono)
  then show ?thesis by simp
qed

lemma real_of_nat_less_pow2: "n < 2 ^ k \<Longrightarrow> real n + 1 \<le> (2::real) ^ k"
proof -
  assume "n < 2 ^ k"
  then have "Suc n \<le> 2 ^ k" by simp
  then have "real (Suc n) \<le> real (2 ^ k)" by (rule of_nat_mono)
  then show ?thesis by simp
qed

lemma binade_bounds:
  assumes "x > 0"
  shows "pow2 (binade x) \<le> x \<and> x < pow2 (binade x + 1)"
proof (cases "x \<ge> 1")
  case True
  define n where "n = nat \<lfloor>x\<rfloor>"
  have fl1: "\<lfloor>x\<rfloor> \<ge> 1" using True by linarith
  have n1: "n > 0" unfolding n_def using fl1 by linarith
  have rn: "real n = of_int \<lfloor>x\<rfloor>"
    unfolding n_def using fl1 by (intro of_nat_nat) linarith
  have n2: "real n \<le> x" unfolding rn by (rule of_int_floor_le)
  have n3: "x < real n + 1" unfolding rn by linarith
  from bitLength_bounds [OF n1] have b: "2 ^ (bitLength n - 1) \<le> n" "n < 2 ^ bitLength n"
    by simp_all
  have pos: "bitLength n > 0" using n1 by (simp add: bitLength.simps [of n])
  have e: "binade x = int (bitLength n) - 1" using True by (simp add: binade_def n_def)
  have e0: "nat (int (bitLength n) - 1) = bitLength n - 1" by simp
  have "pow2 (binade x) = 2 ^ (bitLength n - 1)"
    using pos unfolding e by (simp add: pow2_def e0)
  also have "\<dots> \<le> real n" using b(1) by (rule real_of_nat_pow2_le)
  finally have lo: "pow2 (binade x) \<le> x" using n2 by (rule order_trans)
  have "real n + 1 \<le> 2 ^ bitLength n" using b(2) by (rule real_of_nat_less_pow2)
  with n3 have "x < 2 ^ bitLength n" by (rule less_le_trans)
  also have "\<dots> = pow2 (binade x + 1)" unfolding e by (simp add: pow2_def)
  finally show ?thesis using lo by simp
next
  case False
  with assms have x: "0 < x" "x < 1" by simp_all
  define m where "m = nat (\<lceil>1 / x\<rceil> - 1)"
  have y: "1 / x > 1" using x by simp
  then have c: "\<lceil>1 / x\<rceil> \<ge> 2" by linarith
  have c0: "\<lceil>1 / x\<rceil> - 1 \<ge> 1" using c by linarith
  have m1: "m > 0" unfolding m_def using c0 by linarith
  have "real m = of_int (\<lceil>1 / x\<rceil> - 1)"
    unfolding m_def using c0 by (intro of_nat_nat) linarith
  then have rm: "real m = of_int \<lceil>1 / x\<rceil> - 1" by simp
  have m2: "real m < 1 / x" unfolding rm by linarith
  have m3: "1 / x \<le> real m + 1" unfolding rm by linarith
  from bitLength_bounds [OF m1] have b: "2 ^ (bitLength m - 1) \<le> m" "m < 2 ^ bitLength m"
    by simp_all
  have pos: "bitLength m > 0" using m1 by (simp add: bitLength.simps [of m])
  have e: "binade x = - int (bitLength m)" using False by (simp add: binade_def m_def)
  have "real m + 1 \<le> 2 ^ bitLength m" using b(2) by (rule real_of_nat_less_pow2)
  with m3 have "1 / x \<le> 2 ^ bitLength m" by (rule order_trans)
  then have "1 \<le> 2 ^ bitLength m * x" using x(1) by (simp add: field_simps)
  then have lo: "pow2 (binade x) \<le> x"
    unfolding e using pos by (simp add: pow2_def field_simps)
  have "(2::real) ^ (bitLength m - 1) \<le> real m"
    using b(1) by (rule real_of_nat_pow2_le)
  then have "2 ^ (bitLength m - 1) < 1 / x" using m2 by (rule le_less_trans)
  then have "2 ^ (bitLength m - 1) * x < 1" using x(1) by (simp add: field_simps)
  then have lt: "x < 1 / 2 ^ (bitLength m - 1)" by (simp add: field_simps)
  have e1: "nat (int (bitLength m) - 1) = bitLength m - 1" by simp
  have "pow2 (binade x + 1) = 1 / 2 ^ (bitLength m - 1)"
  proof (cases "bitLength m = 1")
    case True
    then show ?thesis unfolding e by (simp add: pow2_def)
  next
    case False
    with pos have "- int (bitLength m) + 1 < 0" by simp
    then show ?thesis unfolding e by (simp add: pow2_def e1)
  qed
  with lt lo show ?thesis by simp
qed


lemma roundEven_le: "r \<le> of_int n \<Longrightarrow> roundEven r \<le> n"
  unfolding roundEven_def Let_def by (auto; linarith)

lemma roundEven_ge: "of_int n \<le> r \<Longrightarrow> n \<le> roundEven r"
  unfolding roundEven_def Let_def by (auto; linarith)

lemma roundEven_near: "\<bar>r - of_int (roundEven r)\<bar> \<le> 1 / 2"
  unfolding roundEven_def Let_def by (auto; linarith)

lemma roundDouble_near:
  assumes "x \<noteq> 0"
  shows "\<bar>roundDouble x - x\<bar> \<le> pow2 (max (binade \<bar>x\<bar>) (- 1022) - 52) / 2"
proof -
  let ?u = "pow2 (max (binade \<bar>x\<bar>) (- 1022) - 52)"
  let ?n = "real_of_int (roundEven (\<bar>x\<bar> / ?u))"
  have u: "?u > 0" by (rule pow2_pos)
  have "\<bar>roundDouble x - x\<bar> = \<bar>?n * ?u - \<bar>x\<bar>\<bar>"
  proof (cases "x > 0")
    case True
    then show ?thesis by (simp add: roundDouble_def Let_def)
  next
    case False
    with assms have "x < 0" by simp
    then have "roundDouble x - x = - (?n * ?u - \<bar>x\<bar>)"
      by (simp add: roundDouble_def Let_def)
    then show ?thesis by (simp only: abs_minus)
  qed
  also have "?n * ?u - \<bar>x\<bar> = (?n - \<bar>x\<bar> / ?u) * ?u"
    using u by (simp add: field_simps)
  also have "\<bar>(?n - \<bar>x\<bar> / ?u) * ?u\<bar> = \<bar>\<bar>x\<bar> / ?u - ?n\<bar> * ?u"
    using u by (simp only: abs_mult abs_of_pos abs_minus_commute)
  also have "\<dots> \<le> 1 / 2 * ?u"
    using roundEven_near [of "\<bar>x\<bar> / ?u"] u by (intro mult_right_mono) simp_all
  finally show ?thesis by simp
qed

lemma roundDouble_0: "roundDouble 0 = 0"
  by (simp add: roundDouble_def)

lemma roundDouble_1: "roundDouble 1 = 1"
  by (simp add: roundDouble_def roundEven_def pow2_def binade_def bitLength.simps Let_def)

lemma roundDouble_unit:
  assumes "0 \<le> y" and "y \<le> 1"
  shows "0 \<le> roundDouble y \<and> roundDouble y \<le> 1"
proof (cases "y = 0 \<or> y = 1")
  case True
  then show ?thesis
    using roundDouble_0 roundDouble_1 by auto
next
  case False
  with assms have y: "0 < y" "y < 1" by simp_all
  let ?e = "max (binade y) (- 1022)"
  have ay: "\<bar>y\<bar> = y" using y by simp
  from binade_bounds [OF y(1)] have "pow2 (binade y) \<le> y" ..
  then have "pow2 (binade y) < 1" using y(2) by (rule le_less_trans)
  moreover have "binade y \<ge> 0 \<Longrightarrow> pow2 (binade y) \<ge> 1"
    using one_le_power [of "2::real" "nat (binade y)"] by (simp add: pow2_def)
  ultimately have "binade y < 0" by (cases "binade y \<ge> 0") simp_all
  then have e: "?e - 52 < 0" using y by simp
  define k where "k = nat (- (?e - 52))"
  have u: "pow2 (?e - 52) = 1 / 2 ^ k" using e unfolding k_def pow2_def by simp
  have q: "y / pow2 (?e - 52) = y * 2 ^ k" by (simp add: u)
  have "y * 2 ^ k \<le> of_int (2 ^ k)" using y by simp
  then have hi: "roundEven (y * 2 ^ k) \<le> 2 ^ k" by (rule roundEven_le)
  have "of_int 0 \<le> y * 2 ^ k" using y by simp
  then have lo: "0 \<le> roundEven (y * 2 ^ k)" by (rule roundEven_ge)
  have r: "roundDouble y = of_int (roundEven (y * 2 ^ k)) / 2 ^ k"
    using y unfolding roundDouble_def Let_def ay q u by simp
  have "real_of_int (roundEven (y * 2 ^ k)) \<le> real_of_int (2 ^ k)"
    using hi by (rule of_int_le_iff [THEN iffD2])
  then have "roundDouble y \<le> 1" unfolding r by (simp add: field_simps)
  moreover have "0 \<le> roundDouble y" unfolding r using lo by simp
  ultimately show ?thesis by simp
qed

text \<open>Two known doubles: 0.1 and 0.57.\<close>

lemma jsDivide_examples:
  "jsDivide 1 10 = 3602879701896397 / 36028797018963968"
  "jsDivide 57 100 = 5134103575202365 / 9007199254740992"
  "jsDivide 50 100 = 1 / 2"
  by (simp_all add: double_defs)

subsection \<open>Strings and keys\<close>

text \<open>\<^const>\<open>endsWith\<close> is the suffix relation.\<close>

lemma endsWith_iff: "endsWith s x \<longleftrightarrow> (\<exists>p. s = p @ x)"
proof
  assume "endsWith s x"
  then have "s = take (length s - length x) s @ x"
    unfolding endsWith_def by (metis append_take_drop_id)
  then show "\<exists>p. s = p @ x" ..
next
  assume "\<exists>p. s = p @ x"
  then show "endsWith s x"
    unfolding endsWith_def by auto
qed

lemma all_category:
  "(\<forall>k. P k) \<longleftrightarrow> P Performance \<and> P Accessibility \<and> P BestPractices \<and> P Seo"
  by (metis category.exhaust)

subsection \<open>Sequencing\<close>

lemma andThen_Inr:
  "andThen m f = (Inr y, t) \<longleftrightarrow>
     (\<exists>x t1 t2. m = (Inr x, t1) \<and> f x = (Inr y, t2) \<and> t = t1 @ t2)"
  by (cases m; cases "fst m") (auto simp: andThen_def split: prod.splits)

lemma andThen_Inl_left: "fst m = Inl err \<Longrightarrow> andThen m f = (Inl err, snd m)"
  by (cases m) (simp add: andThen_def)

lemma andThen_Inr_left: "fst m = Inr x \<Longrightarrow> andThen m f = (fst (f x), snd m @ snd (f x))"
  by (cases m) (simp add: andThen_def split: prod.splits)

subsection \<open>A run that returns a result\<close>

lemma runAudit_Inr:
  "runAudit e opts = (Inr rep, t) \<Longrightarrow> playAuditResult e = PlayAuditReport rep"
  by (auto simp: runAudit_def Let_def split: play_audit_result.splits)

lemma extractScores_Inr:
  "extractScores n rep = Inr sc \<Longrightarrow>
     \<exists>raw. reportedScores n rep = Inr raw \<and> sc = normalizeScores raw"
  by (auto simp: extractScores_def split: sum.splits)

lemma session_Inr:
  assumes "session e opts u = (Inr res, t)"
  shows "\<exists>rep raw. playAuditResult e = PlayAuditReport rep
           \<and> reportedScores (r_name (route opts)) rep = Inr raw
           \<and> res = \<lparr>routeName = r_name (route opts), url = u, scores = normalizeScores raw,
                    thresholds =
                      getRouteThresholds (globalThresholds opts) (r_thresholds (route opts)),
                    passed = checkThresholds (normalizeScores raw)
                      (getRouteThresholds (globalThresholds opts) (r_thresholds (route opts)))\<rparr>"
  using assms unfolding session_def Let_def andThen_Inr
  by (auto dest!: runAudit_Inr extractScores_Inr)

lemma run_Inr:
  assumes "run e opts = (Inr res, t)"
  shows "\<exists>t'. session e opts (baseUrl opts @ r_path (route opts)) = (Inr res, t')"
  using assms by (auto simp: run_def Let_def split: if_splits prod.splits sum.splits)

text \<open>
  Scenario A of the specification: a public route, HTTP 200, scores 78/92/88/95 on the
  0--100 scale against thresholds 50/80/80/80.
\<close>

lemma scenarioA:
  "run (envWith FileMissing (GotoResponse 200) (PlayAuditReport (reportWith 78 92 88 95)))
       (optionsFor homeRoute None)
   = (Inr \<lparr>routeName = ''home'', url = ''https://example.com/'',
           scores = byCategory (jsDivide 78 100) (jsDivide 92 100) (jsDivide 88 100)
                      (jsDivide 95 100),
           thresholds = byCategory (Some 50) (Some 80) (Some 80) (Some 80), passed = True\<rparr>,
      [LaunchPersistentContext 1280 720, NewPage, Goto ''https://example.com/'',
       PlayAudit ''./lighthouse-reports'', Close])"
  by (simp add: flow_defs example_defs double_defs)



section \<open>Credential matching\<close>

lemma cookieDomain_normalizeCookie: "cookieDomain (normalizeCookie c) = cookieDomain c"
  by (simp add: cookieDomain_def normalizeCookie_def)

lemma domainMatches_normalizeCookie: "domainMatches t (normalizeCookie c) = domainMatches t c"
  by (simp add: domainMatches_def cookieDomain_normalizeCookie)

lemma getByDomain_member:
  "c \<in> set cookies \<Longrightarrow>
     normalizeCookie c \<in> set (getByDomain cookies t) \<longleftrightarrow> domainMatches t c"
  by (auto simp: getByDomain_def getNormalized_def domainMatches_normalizeCookie)

text \<open>
  C3. For a stored cookie with domain \<open>d\<close> and a target domain \<open>t\<close>, the cookie (as
  \<^const>\<open>getByDomain\<close> returns it, with its \<^verbatim>\<open>sameSite\<close> normalised) is in the result of
  \<^const>\<open>getByDomain\<close> for \<open>t\<close> if and only if \<open>d = t\<close>, or \<open>d\<close> is \<open>t\<close> with a dot in
  front, or \<open>t\<close> ends with \<open>d\<close>.
\<close>

theorem getByDomain_includes_iff:
  assumes "cookie \<in> set cookies" and "c_domain cookie = Some d"
  shows "normalizeCookie cookie \<in> set (getByDomain cookies t)
         \<longleftrightarrow> d = t \<or> d = ''.'' @ t \<or> endsWith t d"
  using assms by (simp add: getByDomain_member domainMatches_def cookieDomain_def)

theorem getByDomain_includes_iff_witness:
  "cookieFor (Some ''.example.com'')
     \<in> set [cookieFor (Some ''.example.com''), cookieFor (Some ''other.com'')]
   \<and> c_domain (cookieFor (Some ''.example.com'')) = Some ''.example.com''
   \<and> normalizeCookie (cookieFor (Some ''.example.com''))
        \<in> set (getByDomain [cookieFor (Some ''.example.com''), cookieFor (Some ''other.com'')]
                 ''app.example.com'')
   \<and> endsWith ''app.example.com'' ''.example.com''"
  using getByDomain_includes_iff [of "cookieFor (Some ''.example.com'')"
      "[cookieFor (Some ''.example.com''), cookieFor (Some ''other.com'')]"
      "''.example.com''" "''app.example.com''"]
  by (simp add: cookieFor_def endsWith_def)

text \<open>
  C10. A stored cookie whose domain is absent or the empty string is in the result of
  \<^const>\<open>getByDomain\<close> for every target domain.
\<close>

theorem getByDomain_empty_domain_matches_all:
  assumes "cookie \<in> set cookies" and "c_domain cookie = None \<or> c_domain cookie = Some []"
  shows "normalizeCookie cookie \<in> set (getByDomain cookies t)"
  using assms
  by (auto simp: getByDomain_member domainMatches_def cookieDomain_def endsWith_def)

theorem getByDomain_empty_domain_matches_all_witness:
  "cookieFor None \<in> set [cookieFor None] \<and> c_domain (cookieFor None) = None
   \<and> normalizeCookie (cookieFor None) \<in> set (getByDomain [cookieFor None] ''example.com'')"
  using getByDomain_empty_domain_matches_all
          [of "cookieFor None" "[cookieFor None]" "''example.com''"]
  by (simp add: cookieFor_def)

section \<open>Thresholds\<close>

text \<open>
  C4. For optional global and per-route thresholds and every category key, the merged
  threshold is the per-route value when there is one, else the global value when there is
  one, else the built-in default: 25 for performance and 50 for accessibility,
  best-practices and seo.
\<close>

theorem getRouteThresholds_precedence:
  "at_key (getRouteThresholds g r) k =
     Some (case Option.bind r (\<lambda>t. at_key t k) of
             Some v \<Rightarrow> v
           | None \<Rightarrow>
               (case Option.bind g (\<lambda>t. at_key t k) of
                  Some v \<Rightarrow> v
                | None \<Rightarrow>
                    (case k of Performance \<Rightarrow> 25 | Accessibility \<Rightarrow> 50
                     | BestPractices \<Rightarrow> 50 | Seo \<Rightarrow> 50)))"
  by (cases k; cases g; cases r)
     (simp_all add: getRouteThresholds_def emptyThresholds_def Let_def split: option.splits)

lemma getRouteThresholds_defined: "\<exists>v. at_key (getRouteThresholds g r) k = Some v"
  by (cases k) (simp_all add: getRouteThresholds_def Let_def)

lemma checkThresholds_iff:
  "checkThresholds s t \<longleftrightarrow> (\<forall>k. at_key s k \<ge> jsDivide (nullish (at_key t k) 0) 100)"
  by (simp add: all_category checkThresholds_def)

text \<open>
  C5, as the claim states it: \<^const>\<open>passed\<close> holds if and only if
  \<open>score * 100 \<ge> threshold\<close> in every category. A report with the scores 57/92/88/95
  on the 0--100 scale against a performance threshold of 57 passes: the score recorded is
  the double \<open>57 / 100\<close>, which the code compares with the same double. That score times
  100 is below 57, both as an exact product and as the product of doubles
  (\<^verbatim>\<open>0.57 * 100\<close> is \<^verbatim>\<open>56.99999999999999\<close>), so the stated condition is false
  there.
\<close>

theorem score_equal_to_threshold_passes_below_product:
  "run (envWith FileMissing (GotoResponse 200) (PlayAuditReport (reportWith 57 92 88 95)))
       ((optionsFor homeRoute None)
          \<lparr>globalThresholds := Some (byCategory (Some 57) (Some 80) (Some 80) (Some 80))\<rparr>)
   = (Inr \<lparr>routeName = ''home'', url = ''https://example.com/'',
           scores = byCategory (jsDivide 57 100) (jsDivide 92 100) (jsDivide 88 100)
                      (jsDivide 95 100),
           thresholds = byCategory (Some 57) (Some 80) (Some 80) (Some 80), passed = True\<rparr>,
      [LaunchPersistentContext 1280 720, NewPage, Goto ''https://example.com/'',
       PlayAudit ''./lighthouse-reports'', Close])
   \<and> \<not> (jsDivide 57 100 * 100 \<ge> 57)
   \<and> \<not> (roundDouble (jsDivide 57 100 * 100) \<ge> 57)"
  by (simp add: flow_defs example_defs double_defs)

text \<open>
  C5, amended. In the result of a run, \<^const>\<open>thresholds\<close> are the merged thresholds and
  \<^const>\<open>passed\<close> holds if and only if every one of the four categories has
  \<open>score \<ge> threshold / 100\<close>, the quotient being the double the division yields: each
  category is compared on its own, there is no aggregate, and a score equal to that
  quotient passes.
\<close>

theorem passed_iff_every_category_clears:
  assumes "run e opts = (Inr res, t)"
  shows "thresholds res = getRouteThresholds (globalThresholds opts) (r_thresholds (route opts))
         \<and> (passed res \<longleftrightarrow>
              (\<forall>k. at_key (scores res) k \<ge> jsDivide (the (at_key (thresholds res) k)) 100))"
proof -
  from run_Inr [OF assms] obtain t' where
    "session e opts (baseUrl opts @ r_path (route opts)) = (Inr res, t')" ..
  from session_Inr [OF this] obtain raw where
    res: "res = \<lparr>routeName = r_name (route opts), url = baseUrl opts @ r_path (route opts),
            scores = normalizeScores raw,
            thresholds = getRouteThresholds (globalThresholds opts) (r_thresholds (route opts)),
            passed = checkThresholds (normalizeScores raw)
              (getRouteThresholds (globalThresholds opts) (r_thresholds (route opts)))\<rparr>"
    by blast
  have th: "thresholds res
              = getRouteThresholds (globalThresholds opts) (r_thresholds (route opts))"
    by (simp add: res)
  have "passed res = checkThresholds (scores res) (thresholds res)"
    by (simp add: res)
  also have "\<dots> \<longleftrightarrow>
      (\<forall>k. at_key (scores res) k \<ge> jsDivide (nullish (at_key (thresholds res) k) 0) 100)"
    by (rule checkThresholds_iff)
  also have "\<dots> \<longleftrightarrow>
      (\<forall>k. at_key (scores res) k \<ge> jsDivide (the (at_key (thresholds res) k)) 100)"
  proof -
    have "nullish (at_key (thresholds res) k) 0 = the (at_key (thresholds res) k)" for k
      using getRouteThresholds_defined [of "globalThresholds opts" "r_thresholds (route opts)" k]
      by (auto simp: th)
    then show ?thesis by simp
  qed
  finally show ?thesis using th by simp
qed

text \<open>
  Scenario A: the run returns a result, the result has passed, and each of its four
  scores is at least its threshold over 100.
\<close>

theorem passed_iff_every_category_clears_witness:
  "fst (run (envWith FileMissing (GotoResponse 200) (PlayAuditReport (reportWith 78 92 88 95)))
          (optionsFor homeRoute None))
   = Inr \<lparr>routeName = ''home'', url = ''https://example.com/'',
          scores = byCategory (jsDivide 78 100) (jsDivide 92 100) (jsDivide 88 100)
                     (jsDivide 95 100),
          thresholds = byCategory (Some 50) (Some 80) (Some 80) (Some 80), passed = True\<rparr>
   \<and> jsDivide 78 100 \<ge> jsDivide 50 100 \<and> jsDivide 92 100 \<ge> jsDivide 80 100
   \<and> jsDivide 88 100 \<ge> jsDivide 80 100 \<and> jsDivide 95 100 \<ge> jsDivide 80 100"
  using passed_iff_every_category_clears [OF scenarioA] scenarioA
  by (simp add: all_category byCategory_def)

text \<open>The same route fails once a single category is below its threshold.\<close>

lemma one_category_below_fails:
  "fst (run (envWith FileMissing (GotoResponse 200) (PlayAuditReport (reportWith 78 92 79 95)))
          (optionsFor homeRoute None))
   = Inr \<lparr>routeName = ''home'', url = ''https://example.com/'',
          scores = byCategory (jsDivide 78 100) (jsDivide 92 100) (jsDivide 79 100)
                     (jsDivide 95 100),
          thresholds = byCategory (Some 50) (Some 80) (Some 80) (Some 80), passed = False\<rparr>"
  by (simp add: flow_defs example_defs double_defs)

text \<open>
  Three comparisons as the doubles decide them. The score \<^verbatim>\<open>56.99999999999999\<close> on the
  0--100 scale is normalised to the same double as 57, and so clears a threshold of 57;
  the score \<^verbatim>\<open>0.566\<close> does not clear the threshold \<^verbatim>\<open>56.6\<close>, whose hundredth rounds
  upwards; the score \<^verbatim>\<open>0.5\<close> clears the threshold 50.
\<close>

lemma double_boundary_examples:
  "jsDivide (roundDouble 56.99999999999999) 100 = jsDivide 57 100"
  "\<not> (roundDouble 0.566 \<ge> jsDivide (roundDouble 56.6) 100)"
  "roundDouble 0.5 \<ge> jsDivide 50 100"
  by (simp_all add: double_defs)

section \<open>Score normalisation\<close>

text \<open>
  C6. Normalisation divides every score by 100 when the performance score is greater
  than 1 and leaves the scores as they are otherwise; so scores that all lie in [0,1] are
  left unchanged.
\<close>

theorem normalizeScores_rule:
  "(performance s > 1 \<longrightarrow>
      normalizeScores s = byCategory (jsDivide (performance s) 100) (jsDivide (accessibility s) 100)
                            (jsDivide (best_practices s) 100) (jsDivide (seo s) 100))
   \<and> (\<not> performance s > 1 \<longrightarrow> normalizeScores s = s)
   \<and> (unitScale s \<longrightarrow> normalizeScores s = s)"
  by (simp add: normalizeScores_def byCategory_def unitScale_def)

text \<open>
  The example of the specification: 78/92/88/95 becomes the doubles 0.78/0.92/0.88/0.95,
  which lie in [0,1] and are left as they are by a second normalisation.
\<close>

theorem normalizeScores_rule_witness:
  "normalizeScores (byCategory 78 92 88 95)
     = byCategory (roundDouble 0.78) (roundDouble 0.92) (roundDouble 0.88) (roundDouble 0.95)
   \<and> unitScale (byCategory (roundDouble 0.78) (roundDouble 0.92) (roundDouble 0.88)
                  (roundDouble 0.95))
   \<and> normalizeScores (byCategory (roundDouble 0.78) (roundDouble 0.92) (roundDouble 0.88)
                        (roundDouble 0.95))
     = byCategory (roundDouble 0.78) (roundDouble 0.92) (roundDouble 0.88) (roundDouble 0.95)"
  using normalizeScores_rule [of "byCategory 78 92 88 95"]
        normalizeScores_rule [of "byCategory (roundDouble 0.78) (roundDouble 0.92)
                                    (roundDouble 0.88) (roundDouble 0.95)"]
  by (simp add: byCategory_def unitScale_def double_defs)

lemma jsDivide_100_unit: "0 \<le> x \<Longrightarrow> x \<le> 100 \<Longrightarrow> 0 \<le> jsDivide x 100 \<and> jsDivide x 100 \<le> 1"
  unfolding jsDivide_def by (rule roundDouble_unit) simp_all

lemma normalizeScores_unit:
  assumes "unitScale raw \<or> (percentScale raw \<and> performance raw > 1)"
  shows "unitScale (normalizeScores raw)"
proof (cases "performance raw > 1")
  case False
  with assms show ?thesis
    by (auto simp: normalizeScores_def)
next
  case True
  with assms have p: "percentScale raw"
    by (auto simp: unitScale_def)
  then show ?thesis
    using True
      jsDivide_100_unit [of "performance raw"] jsDivide_100_unit [of "accessibility raw"]
      jsDivide_100_unit [of "best_practices raw"] jsDivide_100_unit [of "seo raw"]
    by (simp add: normalizeScores_def unitScale_def percentScale_def)
qed

text \<open>
  What does hold of the scores of a result: they lie in [0,1] when the engine reported
  on the 0--1 scale, and when it reported on the 0--100 scale with a performance score
  above 1.
\<close>

lemma run_scores_unit_scale:
  assumes "run e opts = (Inr res, t)"
    and "playAuditResult e = PlayAuditReport rep"
    and "reportedScores (r_name (route opts)) rep = Inr raw"
    and "unitScale raw \<or> (percentScale raw \<and> performance raw > 1)"
  shows "unitScale (scores res)"
proof -
  from run_Inr [OF assms(1)] obtain t' where
    "session e opts (baseUrl opts @ r_path (route opts)) = (Inr res, t')" ..
  from session_Inr [OF this] assms(2,3) have "scores res = normalizeScores raw"
    by auto
  with assms(4) show ?thesis
    by (simp add: normalizeScores_unit)
qed

text \<open>
  C1. The claim is that the scores of a result are in [0,1] whichever scale the engine
  used. On a report with the scores 1/92/88/95 on the 0--100 scale the run returns a
  result whose scores are still 1/92/88/95: the performance score is not greater than 1,
  so nothing is divided, three scores lie outside [0,1], and the route passes thresholds
  of 50/80/80/80 with a performance of 1 out of 100.
\<close>

theorem percent_report_with_performance_one_not_normalized:
  "percentScale (byCategory 1 92 88 95)
   \<and> run (envWith FileMissing (GotoResponse 200) (PlayAuditReport (reportWith 1 92 88 95)))
         (optionsFor homeRoute None)
     = (Inr \<lparr>routeName = ''home'', url = ''https://example.com/'',
             scores = byCategory 1 92 88 95,
             thresholds = byCategory (Some 50) (Some 80) (Some 80) (Some 80), passed = True\<rparr>,
        [LaunchPersistentContext 1280 720, NewPage, Goto ''https://example.com/'',
         PlayAudit ''./lighthouse-reports'', Close])
   \<and> \<not> unitScale (byCategory 1 92 88 95)"
  by (simp add: flow_defs example_defs double_defs percentScale_def unitScale_def)

section \<open>The audit flow\<close>

subsection \<open>The calls of each step\<close>

lemma andThen_events:
  assumes "\<forall>ev \<in> set (snd m). P ev" and "\<And>x. \<forall>ev \<in> set (snd (f x)). P ev"
  shows "\<forall>ev \<in> set (snd (andThen m f)). P ev"
proof (cases m)
  case (Pair r t)
  show ?thesis
  proof (cases r)
    case (Inl err)
    with Pair assms(1) show ?thesis
      by (simp add: andThen_def)
  next
    case (Inr x)
    obtain r' t' where fx: "f x = (r', t')"
      by (cases "f x")
    with assms(2) [of x] have "\<forall>ev \<in> set t'. P ev"
      by simp
    with Pair Inr fx assms(1) show ?thesis
      by (auto simp: andThen_def)
  qed
qed

lemma snd_andThen_prefix: "\<exists>t'. snd (andThen m f) = snd m @ t'"
  by (cases m; cases "fst m") (auto simp: andThen_def split: prod.splits)

lemma addAuthCookies_events:
  "\<forall>ev \<in> set (snd (addAuthCookies e opts)). \<exists>cs. ev = AddCookies cs"
  by (auto simp: addAuthCookies_def call_def split: sum.splits prod.splits)

lemma navigate_events: "snd (navigate e u) = [Goto u]"
  by (simp add: navigate_def split: goto_result.splits)

lemma waitForSelector_events:
  "\<forall>ev \<in> set (snd (waitForSelector e r u)). \<exists>sel. ev = WaitForSelector sel"
  by (simp add: waitForSelector_def call_def)

lemma runAudit_events: "\<forall>ev \<in> set (snd (runAudit e opts)). \<exists>d. ev = PlayAudit d"
  by (simp add: runAudit_def Let_def split: play_audit_result.splits)

lemma session_no_Close: "\<forall>ev \<in> set (snd (session e opts u)). ev \<noteq> Close"
  unfolding session_def Let_def
proof (intro andThen_events)
  show "\<forall>ev \<in> set (snd (addAuthCookies e opts)). ev \<noteq> Close"
    using addAuthCookies_events [of e opts] by auto
  show "\<forall>ev \<in> set (snd (call NewPage (newPageResolves e) NewPageRejected)). ev \<noteq> Close"
    by (simp add: call_def)
  show "\<forall>ev \<in> set (snd (navigate e u)). ev \<noteq> Close"
    by (simp add: navigate_events)
  show "\<forall>ev \<in> set (snd (waitForSelector e (route opts) u)). ev \<noteq> Close"
    using waitForSelector_events [of e "route opts" u] by auto
  show "\<forall>ev \<in> set (snd (runAudit e opts)). ev \<noteq> Close"
    using runAudit_events [of e opts] by auto
qed simp_all

lemma count_list_0: "\<forall>ev \<in> set t. ev \<noteq> x \<Longrightarrow> count_list t x = 0"
  by (induction t) auto

subsection \<open>Release of the browser context\<close>

text \<open>
  When \<^verbatim>\<open>context.close()\<close> rejects after a result was built, the inner \<^verbatim>\<open>catch\<close>
  calls it a second time.
\<close>

lemma rejected_close_is_retried:
  assumes "acquiresContext e" and "\<not> closeResolves e"
    and "fst (session e opts (baseUrl opts @ r_path (route opts))) = Inr res"
  shows "closeCount (snd (run e opts)) = 2"
proof -
  let ?u = "baseUrl opts @ r_path (route opts)"
  obtain r t where s: "session e opts ?u = (r, t)"
    by (cases "session e opts ?u")
  have "count_list t Close = 0"
    using session_no_Close [of e opts ?u] s by (simp add: count_list_0)
  with assms s show ?thesis
    by (simp add: run_def Let_def acquiresContext_def closeCount_def)
qed




subsection \<open>Authenticated routes\<close>

lemma session_auth_error:
  "addAuthCookies e opts = (Inl err, t) \<Longrightarrow> session e opts u = (Inl err, t)"
  by (simp add: session_def andThen_def)

lemma run_auth_error:
  assumes "addAuthCookies e opts = (Inl err, [])"
  shows "isl (fst (run e opts)) \<and> \<not> navigationAttempted (snd (run e opts))
         \<and> (acquiresContext e \<and> closeResolves e \<longrightarrow>
              fst (run e opts) = Inl (RunFailed (r_name (route opts)) err))"
  using session_auth_error [OF assms, of "baseUrl opts @ r_path (route opts)"]
  by (simp add: run_def Let_def navigationAttempted_def acquiresContext_def)

text \<open>
  C7. For a route with \<^verbatim>\<open>authenticated\<close> true: when no \<^verbatim>\<open>authFile\<close> is configured
  the run fails, without a result and without any \<^verbatim>\<open>page.goto\<close>, and the error of a run
  that holds a context (and whose close call resolves) is the ``requires authentication
  but no authFile is configured'' one; when the file loads with an empty \<^verbatim>\<open>Cookies\<close>
  array the run fails in the same way with the ``has no cookies'' error, which is a
  different one.
\<close>

theorem authenticated_route_needs_credentials:
  assumes "truthyBool (authenticated (route opts))"
  shows "(\<not> truthyString (authFile opts) \<longrightarrow>
            isl (fst (run e opts)) \<and> \<not> navigationAttempted (snd (run e opts))
            \<and> (acquiresContext e \<and> closeResolves e \<longrightarrow>
                 fst (run e opts)
                   = Inl (RunFailed (r_name (route opts))
                            (AuthFileNotConfigured (r_name (route opts))))))
       \<and> (truthyString (authFile opts) \<and> authFileContent e = FileCookies [] \<longrightarrow>
            isl (fst (run e opts)) \<and> \<not> navigationAttempted (snd (run e opts))
            \<and> (acquiresContext e \<and> closeResolves e \<longrightarrow>
                 fst (run e opts)
                   = Inl (RunFailed (r_name (route opts)) (NoCookies (the (authFile opts))))))
       \<and> AuthFileNotConfigured (r_name (route opts)) \<noteq> NoCookies (the (authFile opts))"
proof (intro conjI impI)
  assume "\<not> truthyString (authFile opts)"
  with assms have a: "addAuthCookies e opts
      = (Inl (AuthFileNotConfigured (r_name (route opts))), [])"
    by (simp add: addAuthCookies_def)
  from run_auth_error [OF a] show "isl (fst (run e opts))"
    by simp
  from run_auth_error [OF a] show "\<not> navigationAttempted (snd (run e opts))"
    by simp
  assume "acquiresContext e \<and> closeResolves e"
  with run_auth_error [OF a] show "fst (run e opts)
      = Inl (RunFailed (r_name (route opts)) (AuthFileNotConfigured (r_name (route opts))))"
    by simp
next
  assume "truthyString (authFile opts) \<and> authFileContent e = FileCookies []"
  with assms have a: "addAuthCookies e opts = (Inl (NoCookies (the (authFile opts))), [])"
    by (simp add: addAuthCookies_def load_def isEmpty_def)
  from run_auth_error [OF a] show "isl (fst (run e opts))"
    by simp
  from run_auth_error [OF a] show "\<not> navigationAttempted (snd (run e opts))"
    by simp
  assume "acquiresContext e \<and> closeResolves e"
  with run_auth_error [OF a] show "fst (run e opts)
      = Inl (RunFailed (r_name (route opts)) (NoCookies (the (authFile opts))))"
    by simp
next
  show "AuthFileNotConfigured (r_name (route opts)) \<noteq> NoCookies (the (authFile opts))"
    by simp
qed

theorem authenticated_route_needs_credentials_witness:
  "truthyBool (authenticated (route (optionsFor dashboardRoute None)))
   \<and> run (envWith FileMissing (GotoResponse 200) (PlayAuditReport (reportWith 78 92 88 95)))
         (optionsFor dashboardRoute None)
     = (Inl (RunFailed ''dashboard'' (AuthFileNotConfigured ''dashboard'')),
        [LaunchPersistentContext 1280 720, Close])
   \<and> truthyBool (authenticated (route (optionsFor dashboardRoute (Some ''./auth.json''))))
   \<and> fst (run (envWith (FileCookies []) (GotoResponse 200)
                  (PlayAuditReport (reportWith 78 92 88 95)))
             (optionsFor dashboardRoute (Some ''./auth.json'')))
     = Inl (RunFailed ''dashboard'' (NoCookies ''./auth.json''))"
  using authenticated_route_needs_credentials
          [of "optionsFor dashboardRoute None"
              "envWith FileMissing (GotoResponse 200) (PlayAuditReport (reportWith 78 92 88 95))"]
        authenticated_route_needs_credentials
          [of "optionsFor dashboardRoute (Some ''./auth.json'')"
              "envWith (FileCookies []) (GotoResponse 200)
                 (PlayAuditReport (reportWith 78 92 88 95))"]
  by (simp add: flow_defs example_defs Let_def acquiresContext_def)

subsection \<open>Cookie injection\<close>

lemma injected_append: "injected (xs @ ys) = injected xs @ injected ys"
  by (induction xs rule: injected.induct) simp_all

lemma injected_none: "\<forall>ev \<in> set t. \<forall>cs. ev \<noteq> AddCookies cs \<Longrightarrow> injected t = []"
  by (induction t rule: injected.induct) simp_all

lemma after_cookies_no_injection:
  "\<forall>ev \<in> set (snd (
     andThen (call NewPage (newPageResolves e) NewPageRejected) (\<lambda>_.
     andThen (navigate e u) (\<lambda>_.
     andThen (waitForSelector e (route opts) u) (\<lambda>_.
       andThen (runAudit e opts) (\<lambda>report.
       andThen (extractScores (r_name (route opts)) report, []) (\<lambda>sc.
         (Inr \<lparr>routeName = r_name (route opts), url = u, scores = sc, thresholds = ts,
               passed = checkThresholds sc ts\<rparr>, [])))))))).
     \<forall>cs. ev \<noteq> AddCookies cs"
proof (intro andThen_events)
  show "\<forall>ev \<in> set (snd (call NewPage (newPageResolves e) NewPageRejected)).
          \<forall>cs. ev \<noteq> AddCookies cs"
    by (simp add: call_def)
  show "\<forall>ev \<in> set (snd (navigate e u)). \<forall>cs. ev \<noteq> AddCookies cs"
    by (simp add: navigate_events)
  show "\<forall>ev \<in> set (snd (waitForSelector e (route opts) u)). \<forall>cs. ev \<noteq> AddCookies cs"
    using waitForSelector_events [of e "route opts" u] by auto
  show "\<forall>ev \<in> set (snd (runAudit e opts)). \<forall>cs. ev \<noteq> AddCookies cs"
    using runAudit_events [of e opts] by auto
qed simp_all

lemma session_injected:
  "injected (snd (session e opts u)) = injected (snd (addAuthCookies e opts))"
proof (cases "addAuthCookies e opts")
  case (Pair r t)
  show ?thesis
  proof (cases r)
    case (Inl err)
    with Pair show ?thesis
      by (simp add: session_def andThen_Inl_left)
  next
    case (Inr x)
    have "fst (addAuthCookies e opts) = Inr x"
      using Pair Inr by simp
    then show ?thesis
      unfolding session_def Let_def
      by (subst andThen_Inr_left, assumption)
         (simp add: injected_append injected_none [OF after_cookies_no_injection])
  qed
qed

lemma run_injected:
  "acquiresContext e \<Longrightarrow>
     injected (snd (run e opts)) = injected (snd (addAuthCookies e opts))"
  using session_injected [of e opts "baseUrl opts @ r_path (route opts)"]
  by (cases "session e opts (baseUrl opts @ r_path (route opts))";
      cases "fst (session e opts (baseUrl opts @ r_path (route opts)))")
     (auto simp: run_def Let_def acquiresContext_def injected_append)

text \<open>
  C2, as the claim states it: only the stored cookies whose domain matches the target
  domain of \<^verbatim>\<open>baseUrl\<close> are injected. With the base URL \<^verbatim>\<open>https://example.com\<close> and
  one stored cookie for \<^verbatim>\<open>other.com\<close>, \<^const>\<open>getByDomain\<close> selects nothing for
  \<^verbatim>\<open>example.com\<close>, and the run hands that cookie to \<^verbatim>\<open>addCookies\<close> all the same.
\<close>

theorem unmatched_cookie_injected:
  "baseUrl (optionsFor dashboardRoute (Some ''./auth.json'')) = ''https://example.com''
   \<and> truthyBool (authenticated (route (optionsFor dashboardRoute (Some ''./auth.json''))))
   \<and> getByDomain [cookieFor (Some ''other.com'')] ''example.com'' = []
   \<and> injected (snd (run
        (envWith (FileCookies [cookieFor (Some ''other.com'')])
           (GotoResponse 200) (PlayAuditReport (reportWith 78 92 88 95)))
        (optionsFor dashboardRoute (Some ''./auth.json''))))
     = [toPlaywrightCookie (normalizeCookie (cookieFor (Some ''other.com'')))]"
  by (simp add: flow_defs example_defs Let_def getByDomain_def domainMatches_def
        cookieDomain_def endsWith_def)

text \<open>
  C2, amended. For a route with \<^verbatim>\<open>authenticated\<close> true, a configured \<^verbatim>\<open>authFile\<close>
  and a non-empty stored cookie list, a run that holds a context hands to
  \<^verbatim>\<open>addCookies\<close> every stored cookie, in order, with \<^verbatim>\<open>sameSite\<close> normalised, an
  absent domain as the empty string and an absent path as \<^verbatim>\<open>/\<close>; the base URL plays no
  part and no domain matching is applied.
\<close>

theorem every_stored_cookie_injected:
  assumes "truthyBool (authenticated (route opts))"
    and "acquiresContext e"
    and "truthyString (authFile opts)"
    and "authFileContent e = FileCookies cookies"
    and "cookies \<noteq> []"
  shows "injected (snd (run e opts)) = map toPlaywrightCookie (getNormalized cookies)"
  using assms
  by (simp add: run_injected addAuthCookies_def load_def isEmpty_def call_def
        asPlaywrightCookies_def)

theorem every_stored_cookie_injected_witness:
  "truthyBool (authenticated (route (optionsFor dashboardRoute (Some ''./auth.json''))))
   \<and> injected (snd (run
        (envWith (FileCookies [cookieFor (Some ''.example.com''), cookieFor (Some ''other.com'')])
           (GotoResponse 200) (PlayAuditReport (reportWith 78 92 88 95)))
        (optionsFor dashboardRoute (Some ''./auth.json''))))
     = map toPlaywrightCookie
         (getNormalized [cookieFor (Some ''.example.com''), cookieFor (Some ''other.com'')])"
  using every_stored_cookie_injected
    [of "optionsFor dashboardRoute (Some ''./auth.json'')"
        "envWith (FileCookies [cookieFor (Some ''.example.com''), cookieFor (Some ''other.com'')])
           (GotoResponse 200) (PlayAuditReport (reportWith 78 92 88 95))"
        "[cookieFor (Some ''.example.com''), cookieFor (Some ''other.com'')]"]
  by (simp add: acquiresContext_def envWith_def optionsFor_def dashboardRoute_def)

subsection \<open>Navigation\<close>

lemma run_trace:
  assumes "acquiresContext e"
  shows "\<exists>c. snd (run e opts)
             = LaunchPersistentContext (orNumber (viewportWidth opts) 1280)
                 (orNumber (viewportHeight opts) 720)
               # snd (session e opts (baseUrl opts @ r_path (route opts))) @ c
           \<and> filter isGoto c = []"
proof -
  obtain r t where s: "session e opts (baseUrl opts @ r_path (route opts)) = (r, t)"
    by (cases "session e opts (baseUrl opts @ r_path (route opts))")
  with assms show ?thesis
    by (cases r) (simp_all add: run_def Let_def acquiresContext_def)
qed

lemma session_trace:
  "snd (session e opts u) =
     (if fst (addAuthCookies e opts) = Inr () then
        snd (addAuthCookies e opts) @ NewPage #
          (if newPageResolves e then
             snd (andThen (navigate e u) (\<lambda>_.
               andThen (waitForSelector e (route opts) u) (\<lambda>_.
                 andThen (runAudit e opts) (\<lambda>report.
                 andThen (extractScores (r_name (route opts)) report, []) (\<lambda>sc.
                   (Inr \<lparr>routeName = r_name (route opts), url = u, scores = sc,
                         thresholds = getRouteThresholds (globalThresholds opts)
                                        (r_thresholds (route opts)),
                         passed = checkThresholds sc
                           (getRouteThresholds (globalThresholds opts)
                              (r_thresholds (route opts)))\<rparr>, []))))))
           else [])
      else snd (addAuthCookies e opts))"
proof (cases "addAuthCookies e opts")
  case (Pair r t)
  then show ?thesis
    by (cases r) (simp_all add: session_def andThen_def call_def Let_def split: prod.splits)
qed

text \<open>
  \<^const>\<open>reachesNavigation\<close> describes exactly the runs in which \<^verbatim>\<open>page.goto\<close> is
  called.
\<close>

lemma reachesNavigation_iff:
  "reachesNavigation e opts \<longleftrightarrow> navigationAttempted (snd (run e opts))"
proof (cases "acquiresContext e")
  case False
  then show ?thesis
    by (auto simp: reachesNavigation_def acquiresContext_def navigationAttempted_def run_def
          Let_def)
next
  case True
  let ?u = "baseUrl opts @ r_path (route opts)"
  have "\<forall>ev \<in> set (snd (addAuthCookies e opts)). \<not> isGoto ev"
    using addAuthCookies_events [of e opts] by auto
  then have f: "filter isGoto (snd (addAuthCookies e opts)) = []"
    by (simp add: filter_empty_conv)
  from run_trace [OF True, of opts] obtain c where
    c: "snd (run e opts)
          = LaunchPersistentContext (orNumber (viewportWidth opts) 1280)
              (orNumber (viewportHeight opts) 720) # snd (session e opts ?u) @ c"
      "filter isGoto c = []"
    by blast
  have nav: "navigationAttempted (snd (run e opts))
               \<longleftrightarrow> filter isGoto (snd (session e opts ?u)) \<noteq> []"
    by (simp add: navigationAttempted_def c)
  show ?thesis
  proof (cases "fst (addAuthCookies e opts) = Inr () \<and> newPageResolves e")
    case False
    with True f show ?thesis
      by (auto simp: nav reachesNavigation_def session_trace)
  next
    case r: True
    obtain t' where "snd (andThen (navigate e ?u) (\<lambda>_.
               andThen (waitForSelector e (route opts) ?u) (\<lambda>_.
                 andThen (runAudit e opts) (\<lambda>report.
                 andThen (extractScores (r_name (route opts)) report, []) (\<lambda>sc.
                   (Inr \<lparr>routeName = r_name (route opts), url = ?u, scores = sc,
                         thresholds = getRouteThresholds (globalThresholds opts)
                                        (r_thresholds (route opts)),
                         passed = checkThresholds sc
                           (getRouteThresholds (globalThresholds opts)
                              (r_thresholds (route opts)))\<rparr>, [])))))) = Goto ?u # t'"
      using snd_andThen_prefix [of "navigate e ?u"] by (auto simp: navigate_events)
    with r True show ?thesis
      by (simp add: nav reachesNavigation_def session_trace)
  qed
qed

text \<open>
  C8. In a run that gets as far as \<^verbatim>\<open>page.goto\<close>: when \<^verbatim>\<open>goto\<close> rejects, or yields
  no response, or yields a response with a status of 400 or more, the run returns no
  result. When the close call resolves, its error is the ``Failed to navigate to'' one,
  which carries the URL \<^verbatim>\<open>baseUrl + route.path\<close> and, for a response, the status; and
  the context is closed right after the navigation.
\<close>

theorem navigation_failure:
  assumes "reachesNavigation e opts"
    and "gotoResult e = GotoRejects \<or> gotoResult e = GotoNull
         \<or> (gotoResult e = GotoResponse status \<and> status \<ge> 400)"
  shows "isl (fst (run e opts))
       \<and> (closeResolves e \<longrightarrow>
            snd (run e opts)
              = LaunchPersistentContext (orNumber (viewportWidth opts) 1280)
                    (orNumber (viewportHeight opts) 720)
                  # snd (addAuthCookies e opts)
                  @ [NewPage, Goto (baseUrl opts @ r_path (route opts)), Close])
       \<and> (closeResolves e \<and> gotoResult e = GotoRejects \<longrightarrow>
            fst (run e opts)
              = Inl (RunFailed (r_name (route opts))
                       (NavigationFailed (baseUrl opts @ r_path (route opts)) GotoRejected)))
       \<and> (closeResolves e \<and> gotoResult e = GotoNull \<longrightarrow>
            fst (run e opts)
              = Inl (RunFailed (r_name (route opts))
                       (NavigationFailed (baseUrl opts @ r_path (route opts))
                          (NoResponse (baseUrl opts @ r_path (route opts))))))
       \<and> (closeResolves e \<and> gotoResult e = GotoResponse status \<and> status \<ge> 400 \<longrightarrow>
            fst (run e opts)
              = Inl (RunFailed (r_name (route opts))
                       (NavigationFailed (baseUrl opts @ r_path (route opts))
                          (HttpStatus status (baseUrl opts @ r_path (route opts))))))"
proof -
  let ?u = "baseUrl opts @ r_path (route opts)"
  obtain t where a: "addAuthCookies e opts = (Inr (), t)"
    using assms(1) by (cases "addAuthCookies e opts") (auto simp: reachesNavigation_def)
  obtain cause where n: "navigate e ?u = (Inl (NavigationFailed ?u cause), [Goto ?u])"
      and c: "gotoResult e = GotoRejects \<longrightarrow> cause = GotoRejected"
        "gotoResult e = GotoNull \<longrightarrow> cause = NoResponse ?u"
        "gotoResult e = GotoResponse status \<longrightarrow> cause = HttpStatus status ?u"
    using assms(2) by (auto simp: navigate_def)
  have s: "session e opts ?u = (Inl (NavigationFailed ?u cause), t @ [NewPage, Goto ?u])"
    using assms(1) a n by (simp add: session_def andThen_def call_def reachesNavigation_def)
  have r: "run e opts
      = (if closeResolves e
         then (Inl (RunFailed (r_name (route opts)) (NavigationFailed ?u cause)),
               LaunchPersistentContext (orNumber (viewportWidth opts) 1280)
                   (orNumber (viewportHeight opts) 720) # (t @ [NewPage, Goto ?u]) @ [Close])
         else (Inl (RunFailed (r_name (route opts)) CloseRejected),
               LaunchPersistentContext (orNumber (viewportWidth opts) 1280)
                   (orNumber (viewportHeight opts) 720) # (t @ [NewPage, Goto ?u]) @ [Close]))"
    using assms(1) s by (simp add: run_def Let_def reachesNavigation_def acquiresContext_def)
  show ?thesis
    using c a by (simp add: r)
qed

text \<open>Scenario B, a 404, and a \<^verbatim>\<open>page.goto\<close> that rejects.\<close>

theorem navigation_failure_witness:
  "reachesNavigation (envWith FileMissing (GotoResponse 404) PlayAuditRejects)
     (optionsFor homeRoute None)
   \<and> gotoResult (envWith FileMissing (GotoResponse 404) PlayAuditRejects) = GotoResponse 404
   \<and> (404::nat) \<ge> 400
   \<and> run (envWith FileMissing (GotoResponse 404) PlayAuditRejects) (optionsFor homeRoute None)
     = (Inl (RunFailed ''home''
               (NavigationFailed ''https://example.com/''
                  (HttpStatus 404 ''https://example.com/''))),
        [LaunchPersistentContext 1280 720, NewPage, Goto ''https://example.com/'', Close])
   \<and> reachesNavigation (envWith FileMissing GotoRejects PlayAuditRejects)
       (optionsFor homeRoute None)
   \<and> run (envWith FileMissing GotoRejects PlayAuditRejects) (optionsFor homeRoute None)
     = (Inl (RunFailed ''home'' (NavigationFailed ''https://example.com/'' GotoRejected)),
        [LaunchPersistentContext 1280 720, NewPage, Goto ''https://example.com/'', Close])"
  using navigation_failure
          [of "envWith FileMissing (GotoResponse 404) PlayAuditRejects"
              "optionsFor homeRoute None" 404]
        navigation_failure
          [of "envWith FileMissing GotoRejects PlayAuditRejects" "optionsFor homeRoute None" 0]
  by (simp add: reachesNavigation_def acquiresContext_def addAuthCookies_def example_defs
        prod_eq_iff)

end
